theory Spec2Isabelle
  imports Complex_Main "HOL-Library.Sublist"
begin

section \<open>The feed as load_data receives it\<close>

text \<open>
  A member of a JSON object is absent, the JSON value null, or a value. The feed's
  numbers are finite floating-point values; every one of them is a rational, and the
  program only compares them, so a magnitude or coordinate is a \<open>rat\<close>. The epoch time
  is an integer number of milliseconds.
\<close>

datatype 'a entry = Absent | JNull | Present 'a

record feature =
  properties_place :: "string entry"
  properties_mag :: "rat entry"
  properties_time :: "int entry"
  geometry_coordinates :: "rat option list entry"

text \<open>
  What \<open>requests.get(url)\<close> followed by \<open>response.json()\<close> gives: the request raises,
  the body is not JSON, or the body is an object whose \<open>features\<close> member is absent
  (\<open>None\<close>) or a list of features.
\<close>

datatype response =
    NetworkFailure string
  | NonJsonBody string
  | Json "feature list option"

datatype exn =
    RequestException string
  | JSONDecodeError string
  | KeyError "string list"
  | TypeError
  | IndexError
  | OutOfBoundsDatetime

section \<open>The data frame\<close>

text \<open>
  The four selected columns, renamed place, mag, time, coordinates; a cell that is
  JSON null or that json_normalize filled in for an absent member is \<open>None\<close>.
\<close>

record raw_row =
  place :: "string option"
  mag :: "rat option"
  time :: "int option"
  coordinates :: "rat option list option"

text \<open>The frame after the columns lon, lat, depth and date were added; date is in
  nanoseconds since the epoch, \<open>None\<close> being NaT.\<close>

record row = raw_row +
  lon :: "rat option"
  lat :: "rat option"
  depth :: "rat option"
  date :: "int option"

fun has_key :: "'a entry \<Rightarrow> bool" where
  "has_key Absent = False"
| "has_key JNull = True"
| "has_key (Present v) = True"

fun cell :: "'a entry \<Rightarrow> 'a option" where
  "cell Absent = None"
| "cell JNull = None"
| "cell (Present v) = Some v"

text \<open>
  \<open>pd.json_normalize(features)\<close> has a column for every dotted path that some feature
  has; \<open>df[[...]]\<close> raises KeyError for the selected labels that are no column.
\<close>

definition missing_columns :: "feature list \<Rightarrow> string list" where
  "missing_columns features =
     (if list_ex (\<lambda>f. has_key (properties_place f)) features then [] else [''properties.place'']) @
     (if list_ex (\<lambda>f. has_key (properties_mag f)) features then [] else [''properties.mag'']) @
     (if list_ex (\<lambda>f. has_key (properties_time f)) features then [] else [''properties.time'']) @
     (if list_ex (\<lambda>f. has_key (geometry_coordinates f)) features then []
      else [''geometry.coordinates''])"

definition select_row :: "feature \<Rightarrow> raw_row" where
  "select_row f =
     \<lparr> place = cell (properties_place f), mag = cell (properties_mag f),
       time = cell (properties_time f), coordinates = cell (geometry_coordinates f) \<rparr>"

definition select_columns :: "feature list \<Rightarrow> exn + raw_row list" where
  "select_columns features =
     (if missing_columns features = [] then Inr (map select_row features)
      else Inl (KeyError (missing_columns features)))"

text \<open>\<open>series.apply(f)\<close>: the first row on which \<open>f\<close> raises ends the pass.\<close>

fun series_apply :: "('a \<Rightarrow> exn + 'b) \<Rightarrow> 'a list \<Rightarrow> exn + 'b list" where
  "series_apply f [] = Inr []"
| "series_apply f (x # xs) =
     (case f x of
        Inl e \<Rightarrow> Inl e
      | Inr y \<Rightarrow> (case series_apply f xs of Inl e \<Rightarrow> Inl e | Inr ys \<Rightarrow> Inr (y # ys)))"

text \<open>\<open>x[i]\<close> on a coordinates cell: a null cell is not subscriptable, a short list
  has no such index.\<close>

definition subscript :: "nat \<Rightarrow> rat option list option \<Rightarrow> exn + rat option" where
  "subscript i x =
     (case x of
        None \<Rightarrow> Inl TypeError
      | Some xs \<Rightarrow> if i < length xs then Inr (xs ! i) else Inl IndexError)"

text \<open>
  \<open>pd.to_datetime(_, unit="ms")\<close> on one cell: null becomes NaT, an integer becomes
  that many milliseconds as nanoseconds, which have to fit the 64-bit timestamp. The
  conversion is pandas' own and the repository pins no version: the unit a timestamp is
  kept in and the range that is accepted differ between versions, and a time column
  with a null in it is held as floating point. This is the nanosecond reading; nothing
  below is stated about the value of the date column, which only orders the grid.
\<close>

definition to_datetime :: "int option \<Rightarrow> exn + int option" where
  "to_datetime t =
     (case t of
        None \<Rightarrow> Inr None
      | Some ms \<Rightarrow>
          if - (2 ^ 63 - 1) \<le> ms * 1000000 \<and> ms * 1000000 \<le> 2 ^ 63 - 1
          then Inr (Some (ms * 1000000)) else Inl OutOfBoundsDatetime)"

definition add_columns ::
  "raw_row list \<Rightarrow> rat option list \<Rightarrow> rat option list \<Rightarrow> rat option list \<Rightarrow> int option list
    \<Rightarrow> row list" where
  "add_columns df lon_col lat_col depth_col date_col =
     map (\<lambda>(r, lo, la, de, da). raw_row.extend r (row.fields lo la de da))
       (zip df (zip lon_col (zip lat_col (zip depth_col date_col))))"

text \<open>\<open>df[mask]\<close>: the rows whose mask entry is true, in order.\<close>

definition bool_index :: "'a list \<Rightarrow> bool list \<Rightarrow> 'a list" where
  "bool_index df flags = map fst (filter snd (zip df flags))"

text \<open>The masks \<open>s.notnull()\<close>, \<open>s > c\<close> and \<open>s >= c\<close>; a comparison with a null
  cell is false.\<close>

definition notnull :: "'a option list \<Rightarrow> bool list" where
  "notnull s = map (\<lambda>x. x \<noteq> None) s"

definition series_gt :: "rat option list \<Rightarrow> rat \<Rightarrow> bool list" where
  "series_gt s c = map (\<lambda>x. case x of None \<Rightarrow> False | Some m \<Rightarrow> c < m) s"

definition series_ge :: "rat option list \<Rightarrow> rat \<Rightarrow> bool list" where
  "series_ge s c = map (\<lambda>x. case x of None \<Rightarrow> False | Some m \<Rightarrow> c \<le> m) s"

section \<open>load_data\<close>

text \<open>The body of the \<open>try\<close> block, an exception being \<open>Inl\<close>.\<close>

definition load_data_body :: "response \<Rightarrow> exn + row list" where
  "load_data_body resp =
     (case resp of
        NetworkFailure s \<Rightarrow> Inl (RequestException s)
      | NonJsonBody s \<Rightarrow> Inl (JSONDecodeError s)
      | Json data \<Rightarrow>
         (case data of
            None \<Rightarrow> Inl (KeyError [''features''])
          | Some features \<Rightarrow>
             (case select_columns features of Inl e \<Rightarrow> Inl e | Inr df \<Rightarrow>
             (case series_apply (subscript 0) (map coordinates df) of Inl e \<Rightarrow> Inl e | Inr lon_col \<Rightarrow>
             (case series_apply (subscript 1) (map coordinates df) of Inl e \<Rightarrow> Inl e | Inr lat_col \<Rightarrow>
             (case series_apply (subscript 2) (map coordinates df) of Inl e \<Rightarrow> Inl e | Inr depth_col \<Rightarrow>
             (case series_apply to_datetime (map time df) of Inl e \<Rightarrow> Inl e | Inr date_col \<Rightarrow>
                let df1 = add_columns df lon_col lat_col depth_col date_col;
                    df2 = bool_index df1 (notnull (map mag df1));
                    df3 = bool_index df2 (series_gt (map mag df2) 0)
                in Inr df3)))))))"

text \<open>
  \<open>load_data\<close> with its \<open>except Exception\<close> branch: the exception is shown with
  \<open>st.error\<close> (first component) and the empty frame is returned. This is the function
  that \<open>st.cache_data(ttl=600)\<close> wraps, as it runs when it is called; the cache itself
  belongs to the Streamlit runtime and is not modelled.
\<close>

definition load_data :: "response \<Rightarrow> exn option \<times> row list" where
  "load_data resp =
     (case load_data_body resp of
        Inl e \<Rightarrow> (Some e, [])
      | Inr df \<Rightarrow> (None, df))"

text \<open>
  Two notions the statements below use: the row that the four column assignments make
  of a selected row when none of them raises, and the test that the two magnitude masks
  apply together.
\<close>

definition with_columns :: "raw_row \<Rightarrow> row" where
  "with_columns r =
     raw_row.extend r
       (row.fields (projr (subscript 0 (coordinates r))) (projr (subscript 1 (coordinates r)))
          (projr (subscript 2 (coordinates r))) (projr (to_datetime (time r))))"

definition positive_mag :: "rat option \<Rightarrow> bool" where
  "positive_mag x = (case x of None \<Rightarrow> False | Some m \<Rightarrow> 0 < m)"

section \<open>The magnitude filter\<close>

definition filter_stage :: "row list \<Rightarrow> rat \<Rightarrow> row list" where
  "filter_stage df mag_filter = bool_index df (series_ge (map mag df) mag_filter)"

section \<open>The sidebar slider\<close>

text \<open>\<open>s.min()\<close>, \<open>s.max()\<close> and \<open>s.mean()\<close> skip null cells and are NaN (\<open>None\<close>)
  when no cell is left.\<close>

definition dropna :: "'a option list \<Rightarrow> 'a list" where
  "dropna s = concat (map (\<lambda>x. case x of None \<Rightarrow> [] | Some v \<Rightarrow> [v]) s)"

definition series_min :: "rat option list \<Rightarrow> rat option" where
  "series_min s = (case dropna s of [] \<Rightarrow> None | v # vs \<Rightarrow> Some (fold min vs v))"

definition series_max :: "rat option list \<Rightarrow> rat option" where
  "series_max s = (case dropna s of [] \<Rightarrow> None | v # vs \<Rightarrow> Some (fold max vs v))"

definition series_mean :: "rat option list \<Rightarrow> rat option" where
  "series_mean s =
     (case dropna s of [] \<Rightarrow> None | v # vs \<Rightarrow> Some (sum_list (v # vs) / of_nat (length (v # vs))))"

text \<open>
  Python's \<open>round(x, 1)\<close>: the nearest multiple of one tenth, a tie going to the even
  one. (The float that Python returns is the double nearest to this decimal.)
\<close>

definition round_half_even :: "rat \<Rightarrow> int" where
  "round_half_even x =
     (let f = \<lfloor>x\<rfloor>; d = x - of_int f
      in if d < 1 / 2 then f else if 1 / 2 < d then f + 1 else if even f then f else f + 1)"

definition py_round1 :: "rat \<Rightarrow> rat" where
  "py_round1 x = of_int (round_half_even (x * 10)) / 10"

text \<open>The keyword arguments of the \<open>st.sidebar.slider\<close> call.\<close>

record slider_args =
  min_value :: "rat option"
  max_value :: "rat option"
  slider_value :: rat
  step :: rat

definition mag_slider :: "row list \<Rightarrow> slider_args" where
  "mag_slider df =
     (let min_mag = series_min (map mag df);
          max_mag = series_max (map mag df)
      in \<lparr> min_value = map_option py_round1 min_mag,
           max_value = map_option py_round1 max_mag,
           slider_value = 5 / 2,
           step = 1 / 10 \<rparr>)"

section \<open>Table and map\<close>

text \<open>A row of the grid: date, place, mag, depth.\<close>

type_synonym grid_row = "int option \<times> string option \<times> rat option \<times> rat option"

text \<open>
  \<open>sort_values("date", ascending=False)\<close>: later dates first, NaT last. Rows with the
  same date are kept in their order here; pandas leaves their order open.
\<close>

fun date_before :: "int option \<Rightarrow> int option \<Rightarrow> bool" where
  "date_before a None = True"
| "date_before None (Some b) = False"
| "date_before (Some a) (Some b) = (b \<le> a)"

fun insert_by_date :: "grid_row \<Rightarrow> grid_row list \<Rightarrow> grid_row list" where
  "insert_by_date x [] = [x]"
| "insert_by_date x (y # ys) =
     (if date_before (fst x) (fst y) then x # y # ys else y # insert_by_date x ys)"

definition sort_values_date :: "grid_row list \<Rightarrow> grid_row list" where
  "sort_values_date rows = foldr insert_by_date rows []"

definition table_view :: "row list \<Rightarrow> grid_row list" where
  "table_view df =
     take 20 (sort_values_date (map (\<lambda>r. (date r, place r, mag r, depth r)) df))"

text \<open>The deck: the column layer's data and the view state with its constants.\<close>

record deck =
  layer_data :: "row list"
  latitude :: "rat option"
  longitude :: "rat option"
  elevation_scale :: nat
  radius :: nat
  zoom :: rat
  pitch :: nat

definition make_deck :: "row list \<Rightarrow> deck" where
  "make_deck df =
     \<lparr> layer_data = df,
       latitude = series_mean (map lat df),
       longitude = series_mean (map lon df),
       elevation_scale = 100, radius = 20000, zoom = 3 / 2, pitch = 45 \<rparr>"

section \<open>The script\<close>

text \<open>
  What one run of the script puts on the page: the error box of \<open>load_data\<close>, the slider
  call and the two sidebar lines, the grid, the map, the warning. An element that the
  run does not create is \<open>None\<close>.
\<close>

record view =
  error_box :: "exn option"
  slider :: "slider_args option"
  sidebar_threshold :: "rat option"
  sidebar_total :: "nat option"
  dataframe :: "grid_row list option"
  pydeck_chart :: "deck option"
  warning :: "string option"

definition warning_text :: string where
  "warning_text = ''No earthquake data found for the selected timeframe or magnitude range.''"

text \<open>The frame after section 4 of the script; \<open>mag_filter\<close> is the value the slider
  returns.\<close>

definition filtered_table :: "response \<Rightarrow> rat \<Rightarrow> row list" where
  "filtered_table resp mag_filter =
     (let df = snd (load_data resp)
      in if df \<noteq> [] then filter_stage df mag_filter else df)"

definition dashboard :: "response \<Rightarrow> rat \<Rightarrow> view" where
  "dashboard resp mag_filter =
     (let loaded = load_data resp;
          df0 = snd loaded;
          df = filtered_table resp mag_filter
      in \<lparr> error_box = fst loaded,
           slider = (if df0 \<noteq> [] then Some (mag_slider df0) else None),
           sidebar_threshold = (if df0 \<noteq> [] then Some mag_filter else None),
           sidebar_total = (if df0 \<noteq> [] then Some (length df) else None),
           dataframe = (if df \<noteq> [] then Some (table_view df) else None),
           pydeck_chart = (if df \<noteq> [] then Some (make_deck df) else None),
           warning = (if df \<noteq> [] then None else Some warning_text) \<rparr>)"

section \<open>Feeds used in the examples\<close>

text \<open>
  The feed contract: a feature has the members place, mag and time and a coordinate
  sequence of at least three values, and its time is a date pandas can hold.
\<close>

definition valid_feature :: "feature \<Rightarrow> bool" where
  "valid_feature f =
     (has_key (properties_place f) \<and> has_key (properties_mag f) \<and> has_key (properties_time f)
      \<and> (case geometry_coordinates f of Present xs \<Rightarrow> 3 \<le> length xs | _ \<Rightarrow> False)
      \<and> (case properties_time f of
           Present ms \<Rightarrow> - (2 ^ 63 - 1) \<le> ms * 1000000 \<and> ms * 1000000 \<le> 2 ^ 63 - 1
         | _ \<Rightarrow> True))"

definition malformed_coordinates :: "feature \<Rightarrow> bool" where
  "malformed_coordinates f =
     (case geometry_coordinates f of Present xs \<Rightarrow> length xs < 3 | _ \<Rightarrow> True)"

definition quake :: "rat entry \<Rightarrow> feature" where
  "quake m =
     \<lparr> properties_place = Present ''12 km NE of Tokyo, Japan'',
       properties_mag = m,
       properties_time = Present 1700000000000,
       geometry_coordinates = Present [Some (1397 / 10), Some (178 / 5), Some 10] \<rparr>"

text \<open>A feature whose coordinate sequence has two elements, and one whose place is
  JSON null.\<close>

definition short_coordinates :: feature where
  "short_coordinates = (quake (Present 5))\<lparr>geometry_coordinates := Present [Some 1, Some 2]\<rparr>"

definition unnamed_place :: feature where
  "unnamed_place = (quake (Present (21 / 5)))\<lparr>properties_place := JNull\<rparr>"

section \<open>Masks and boolean indexing\<close>

lemma bool_index_map: "bool_index df (map p df) = filter p df"
  by (induction df) (simp_all add: bool_index_def)

lemma filter_stage_filter:
  "filter_stage df t = filter (\<lambda>r. case mag r of None \<Rightarrow> False | Some m \<Rightarrow> t \<le> m) df"
  by (simp add: filter_stage_def series_ge_def bool_index_map o_def)

section \<open>What a successful load returns\<close>

lemma series_apply_all_Inr:
  "\<forall>x\<in>set xs. \<exists>y. f x = Inr y \<Longrightarrow> series_apply f xs = Inr (map (\<lambda>x. projr (f x)) xs)"
  by (induction xs) auto

lemma series_apply_Inr_all:
  "series_apply f xs = Inr ys \<Longrightarrow> \<forall>x\<in>set xs. \<exists>y. f x = Inr y"
  by (induction xs arbitrary: ys) (auto split: sum.splits)

lemma series_apply_Inr_map:
  assumes "series_apply f xs = Inr ys"
  shows "ys = map (\<lambda>x. projr (f x)) xs"
proof -
  have "series_apply f xs = Inr (map (\<lambda>x. projr (f x)) xs)"
    using assms by (intro series_apply_all_Inr series_apply_Inr_all)
  with assms show ?thesis by simp
qed

lemma series_apply_Inl_iff:
  "(\<exists>e. series_apply f xs = Inl e) \<longleftrightarrow> (\<exists>x\<in>set xs. \<exists>e. f x = Inl e)"
  by (induction xs) (auto split: sum.splits)

lemma add_columns_map:
  "add_columns df (map a df) (map b df) (map c df) (map d df)
   = map (\<lambda>r. raw_row.extend r (row.fields (a r) (b r) (c r) (d r))) df"
  by (induction df) (simp_all add: add_columns_def)

lemma masks_filter:
  "bool_index (bool_index df (notnull (map mag df)))
       (series_gt (map mag (bool_index df (notnull (map mag df)))) 0)
   = filter (\<lambda>r. positive_mag (mag r)) df"
proof -
  have a: "bool_index df (notnull (map mag df)) = filter (\<lambda>r. mag r \<noteq> None) df"
    by (simp add: notnull_def bool_index_map o_def)
  have b: "bool_index xs (series_gt (map mag xs) 0) = filter (\<lambda>r. positive_mag (mag r)) xs"
    for xs :: "'a raw_row_scheme list"
    by (simp add: series_gt_def bool_index_map o_def positive_mag_def)
  have "filter (\<lambda>r. positive_mag (mag r)) (filter (\<lambda>r. mag r \<noteq> None) df)
        = filter (\<lambda>r. positive_mag (mag r)) df"
    by (induction df) (auto simp: positive_mag_def)
  then show ?thesis
    by (simp only: a b)
qed

lemma load_data_body_columns:
  assumes "series_apply (subscript 0) (map coordinates df) = Inr lon_col"
    and "series_apply (subscript 1) (map coordinates df) = Inr lat_col"
    and "series_apply (subscript 2) (map coordinates df) = Inr depth_col"
    and "series_apply to_datetime (map time df) = Inr date_col"
  shows "add_columns df lon_col lat_col depth_col date_col = map with_columns df"
proof -
  have "lon_col = map (\<lambda>r. projr (subscript 0 (coordinates r))) df"
    using series_apply_Inr_map [OF assms(1)] by (simp add: o_def)
  moreover have "lat_col = map (\<lambda>r. projr (subscript 1 (coordinates r))) df"
    using series_apply_Inr_map [OF assms(2)] by (simp add: o_def)
  moreover have "depth_col = map (\<lambda>r. projr (subscript 2 (coordinates r))) df"
    using series_apply_Inr_map [OF assms(3)] by (simp add: o_def)
  moreover have "date_col = map (\<lambda>r. projr (to_datetime (time r))) df"
    using series_apply_Inr_map [OF assms(4)] by (simp add: o_def)
  ultimately show ?thesis
    by (simp add: add_columns_map with_columns_def [abs_def])
qed

lemma load_data_body_Inr:
  assumes "load_data_body (Json (Some fs)) = Inr df"
  shows "df = filter (\<lambda>r. positive_mag (mag r)) (map with_columns (map select_row fs))"
    and "missing_columns fs = []"
    and "\<forall>f\<in>set fs. \<exists>y. subscript 2 (cell (geometry_coordinates f)) = Inr y"
    and "\<forall>f\<in>set fs. \<exists>d. to_datetime (cell (properties_time f)) = Inr d"
proof -
  from assms show mc: "missing_columns fs = []"
    by (auto simp: load_data_body_def select_columns_def split: if_splits)
  let ?raw = "map select_row fs"
  from assms mc obtain lon_col lat_col depth_col date_col where
    c0: "series_apply (subscript 0) (map coordinates ?raw) = Inr lon_col" and
    c1: "series_apply (subscript 1) (map coordinates ?raw) = Inr lat_col" and
    c2: "series_apply (subscript 2) (map coordinates ?raw) = Inr depth_col" and
    c3: "series_apply to_datetime (map time ?raw) = Inr date_col"
    by (auto simp: load_data_body_def select_columns_def split: sum.splits)
  from assms mc c0 c1 c2 c3 show "df = filter (\<lambda>r. positive_mag (mag r)) (map with_columns ?raw)"
    by (simp add: load_data_body_def select_columns_def Let_def
        load_data_body_columns [OF c0 c1 c2 c3] masks_filter)
  from series_apply_Inr_all [OF c2]
  show "\<forall>f\<in>set fs. \<exists>y. subscript 2 (cell (geometry_coordinates f)) = Inr y"
    by (simp add: select_row_def)
  from series_apply_Inr_all [OF c3]
  show "\<forall>f\<in>set fs. \<exists>d. to_datetime (cell (properties_time f)) = Inr d"
    by (simp add: select_row_def)
qed

lemma with_columns_sel [simp]:
  "place (with_columns r) = place r" "mag (with_columns r) = mag r"
  "time (with_columns r) = time r" "coordinates (with_columns r) = coordinates r"
  "date (with_columns r) = projr (to_datetime (time r))"
  "depth (with_columns r) = projr (subscript 2 (coordinates r))"
  by (simp_all add: with_columns_def raw_row.defs row.defs)

lemma select_row_sel [simp]:
  "place (select_row f) = cell (properties_place f)" "mag (select_row f) = cell (properties_mag f)"
  "time (select_row f) = cell (properties_time f)"
  "coordinates (select_row f) = cell (geometry_coordinates f)"
  by (simp_all add: select_row_def)

lemma load_data_body_Inr_Json:
  "load_data_body resp = Inr df \<Longrightarrow> \<exists>fs. resp = Json (Some fs)"
  by (auto simp: load_data_body_def split: response.splits option.splits)

lemma load_data_rows:
  assumes "r \<in> set (snd (load_data resp))"
  obtains fs f where "resp = Json (Some fs)" "f \<in> set fs" "r = with_columns (select_row f)"
    "positive_mag (cell (properties_mag f))"
    "\<exists>d. to_datetime (cell (properties_time f)) = Inr d"
    "\<exists>y. subscript 2 (cell (geometry_coordinates f)) = Inr y"
proof -
  from assms obtain df where body: "load_data_body resp = Inr df" and r: "r \<in> set df"
    by (auto simp: load_data_def split: sum.splits)
  from load_data_body_Inr_Json [OF body] obtain fs where resp: "resp = Json (Some fs)" ..
  note facts = load_data_body_Inr [OF body [unfolded resp]]
  from r facts(1) obtain f where "f \<in> set fs" "r = with_columns (select_row f)"
    "positive_mag (mag r)"
    by auto
  with resp facts(3,4) that show thesis by auto
qed

lemma valid_feature_cells:
  assumes "valid_feature f"
  shows "i < 3 \<Longrightarrow> \<exists>y. subscript i (cell (geometry_coordinates f)) = Inr y"
    and "\<exists>d. to_datetime (cell (properties_time f)) = Inr d"
  using assms
  by (auto simp: valid_feature_def subscript_def to_datetime_def split: entry.splits)

lemma valid_missing_columns:
  "fs \<noteq> [] \<Longrightarrow> \<forall>f\<in>set fs. valid_feature f \<Longrightarrow> missing_columns fs = []"
  by (cases fs) (auto simp: missing_columns_def valid_feature_def split: entry.splits)

lemma load_data_body_valid:
  assumes "fs \<noteq> []" and "\<forall>f\<in>set fs. valid_feature f"
  shows "load_data_body (Json (Some fs))
         = Inr (filter (\<lambda>r. positive_mag (mag r)) (map with_columns (map select_row fs)))"
proof -
  let ?raw = "map select_row fs"
  have sub: "series_apply (subscript i) (map coordinates ?raw)
            = Inr (map (\<lambda>x. projr (subscript i x)) (map coordinates ?raw))" if "i < 3" for i
    using assms(2) that by (intro series_apply_all_Inr) (simp add: valid_feature_cells)
  have c0: "series_apply (subscript 0) (map coordinates ?raw)
            = Inr (map (\<lambda>x. projr (subscript 0 x)) (map coordinates ?raw))"
    by (rule sub) simp
  have c1: "series_apply (subscript 1) (map coordinates ?raw)
            = Inr (map (\<lambda>x. projr (subscript 1 x)) (map coordinates ?raw))"
    by (rule sub) simp
  have c2: "series_apply (subscript 2) (map coordinates ?raw)
            = Inr (map (\<lambda>x. projr (subscript 2 x)) (map coordinates ?raw))"
    by (rule sub) simp
  have c3: "series_apply to_datetime (map time ?raw)
            = Inr (map (\<lambda>x. projr (to_datetime x)) (map time ?raw))"
    using assms(2) by (intro series_apply_all_Inr) (simp add: valid_feature_cells)
  have "select_columns fs = Inr ?raw"
    by (simp add: select_columns_def valid_missing_columns [OF assms])
  then show ?thesis
    unfolding load_data_body_def
    by (simp only: response.case option.case sum.case c0 c1 c2 c3 Let_def
        load_data_body_columns [OF c0 c1 c2 c3] masks_filter)
qed

section \<open>Evaluation, rounding and column statistics\<close>

lemma load_data_Inl: "load_data_body resp = Inl e \<Longrightarrow> load_data resp = (Some e, [])"
  by (simp add: load_data_def)

lemma dashboard_empty:
  assumes "snd (load_data resp) = []"
  shows "dashboard resp t =
     \<lparr> error_box = fst (load_data resp), slider = None, sidebar_threshold = None,
       sidebar_total = None, dataframe = None, pydeck_chart = None,
       warning = Some warning_text \<rparr>"
  using assms by (simp add: dashboard_def filtered_table_def Let_def)

lemmas load_data_eval =
  load_data_def load_data_body_def select_columns_def missing_columns_def
  select_row_def quake_def subscript_def to_datetime_def
  add_columns_def bool_index_def notnull_def series_gt_def Let_def raw_row.defs row.defs

lemma floor_rat_divide_numeral:
  "\<lfloor>numeral a / numeral b :: rat\<rfloor> = numeral a div numeral b"
  by (metis floor_divide_of_int_eq of_int_numeral)

lemma round_half_even_bounds: "\<lfloor>x\<rfloor> \<le> round_half_even x" "round_half_even x \<le> \<lfloor>x\<rfloor> + 1"
  by (simp_all add: round_half_even_def Let_def)

lemma round_half_even_mono:
  assumes "x \<le> y"
  shows "round_half_even x \<le> round_half_even y"
proof (cases "\<lfloor>x\<rfloor> = \<lfloor>y\<rfloor>")
  case True
  with assms have "x - of_int \<lfloor>x\<rfloor> \<le> y - of_int \<lfloor>y\<rfloor>" by simp
  with True show ?thesis
    by (auto simp: round_half_even_def Let_def)
next
  case False
  with assms have "\<lfloor>x\<rfloor> + 1 \<le> \<lfloor>y\<rfloor>"
    using floor_mono [of x y] by linarith
  with round_half_even_bounds(2) [of x] round_half_even_bounds(1) [of y]
  show ?thesis by linarith
qed

lemma py_round1_mono: "x \<le> y \<Longrightarrow> py_round1 x \<le> py_round1 y"
  using round_half_even_mono [of "x * 10" "y * 10"]
  by (simp add: py_round1_def divide_le_cancel)

lemma dropna_normalized:
  "\<forall>r\<in>set df. \<exists>m. mag r = Some m \<Longrightarrow> map Some (dropna (map mag df)) = map mag df"
  by (induction df) (auto simp: dropna_def)

lemma series_min_Min:
  "dropna s \<noteq> [] \<Longrightarrow> series_min s = Some (Min (set (dropna s)))"
  by (cases "dropna s") (simp_all add: series_min_def Min.set_eq_fold [symmetric])

lemma series_max_Max:
  "dropna s \<noteq> [] \<Longrightarrow> series_max s = Some (Max (set (dropna s)))"
  by (cases "dropna s") (simp_all add: series_max_def Max.set_eq_fold [symmetric])

section \<open>Claims about the filter stage\<close>

text \<open>
  C2: for every table and every threshold the filter stage returns exactly the rows whose
  magnitude is at least the threshold, as a subsequence of the table in the table's
  order (the table itself is a value and is not changed); and on rows with magnitudes
  4.0, 5.0 and 6.5 and the threshold 5.0 it returns exactly the second and third row.
\<close>

theorem C2_filter_stage_subsequence:
  "filter_stage df t = filter (\<lambda>r. \<exists>m. mag r = Some m \<and> t \<le> m) df
   \<and> subseq (filter_stage df t) df
   \<and> filter_stage [r1\<lparr>mag := Some 4\<rparr>, r2\<lparr>mag := Some 5\<rparr>, r3\<lparr>mag := Some (13 / 2)\<rparr>] 5
       = [r2\<lparr>mag := Some 5\<rparr>, r3\<lparr>mag := Some (13 / 2)\<rparr>]"
proof -
  have same: "(\<lambda>r. case mag r of None \<Rightarrow> False | Some m \<Rightarrow> t \<le> m)
              = (\<lambda>r::row. \<exists>m. mag r = Some m \<and> t \<le> m)" for t :: rat
    by (auto split: option.splits)
  have eq: "filter_stage df t = filter (\<lambda>r. \<exists>m. mag r = Some m \<and> t \<le> m) df"
    by (simp add: filter_stage_filter same)
  have sub: "subseq (filter_stage df t) df"
    by (simp add: eq)
  have ex: "filter_stage [r1\<lparr>mag := Some 4\<rparr>, r2\<lparr>mag := Some 5\<rparr>, r3\<lparr>mag := Some (13 / 2)\<rparr>] 5
       = [r2\<lparr>mag := Some 5\<rparr>, r3\<lparr>mag := Some (13 / 2)\<rparr>]"
    by (simp add: filter_stage_filter)
  from eq sub ex show ?thesis by blast
qed

text \<open>
  C10: for thresholds t1 \<le> t2, every row of the table filtered at t2 is a row of the
  table filtered at t1.
\<close>

theorem C10_filter_monotone:
  "t1 \<le> t2 \<Longrightarrow> set (filter_stage df t2) \<subseteq> set (filter_stage df t1)"
  by (auto simp: filter_stage_filter split: option.splits)

theorem C10_filter_monotone_witness:
  "(1::rat) \<le> 2
   \<and> set (filter_stage (snd (load_data (Json (Some [quake (Present (3 / 2)), quake (Present 3)])))) 2)
       \<subseteq> set (filter_stage (snd (load_data (Json (Some [quake (Present (3 / 2)), quake (Present 3)])))) 1)"
  using C10_filter_monotone
    [of 1 2 "snd (load_data (Json (Some [quake (Present (3 / 2)), quake (Present 3)])))"]
  by simp

section \<open>Claims about the normalizer\<close>

text \<open>
  C1: whatever the feed, every row that load_data returns has a magnitude that is not
  null and is greater than 0; and a feed of three valid features with the magnitudes
  null, -1.0 and 4.2 gives exactly one row, with magnitude 4.2.
\<close>

theorem C1_normalizer_positive_magnitude:
  "(\<forall>r\<in>set (snd (load_data resp)). \<exists>m. mag r = Some m \<and> 0 < m)
   \<and> ((\<forall>f\<in>set fs. valid_feature f)
        \<and> map properties_mag fs = [JNull, Present (- 1), Present (21 / 5)]
      \<longrightarrow> map mag (snd (load_data (Json (Some fs)))) = [Some (21 / 5)])"
proof (intro conjI ballI impI)
  fix r assume "r \<in> set (snd (load_data resp))"
  then show "\<exists>m. mag r = Some m \<and> 0 < m"
    by (elim load_data_rows) (auto simp: positive_mag_def split: option.splits)
next
  assume a: "(\<forall>f\<in>set fs. valid_feature f)
        \<and> map properties_mag fs = [JNull, Present (- 1), Present (21 / 5)]"
  then obtain f1 f2 f3 where fs: "fs = [f1, f2, f3]"
    and m: "properties_mag f1 = JNull" "properties_mag f2 = Present (- 1)"
      "properties_mag f3 = Present (21 / 5)"
    by (auto simp: map_eq_Cons_conv)
  from a fs have "load_data_body (Json (Some fs))
         = Inr (filter (\<lambda>r. positive_mag (mag r)) (map with_columns (map select_row fs)))"
    by (intro load_data_body_valid) auto
  then show "map mag (snd (load_data (Json (Some fs)))) = [Some (21 / 5)]"
    by (simp add: load_data_def fs m positive_mag_def)
qed

theorem C1_normalizer_positive_magnitude_witness:
  "valid_feature (quake JNull) \<and> valid_feature (quake (Present (- 1)))
   \<and> valid_feature (quake (Present (21 / 5)))
   \<and> map mag (snd (load_data (Json (Some
        [quake JNull, quake (Present (- 1)), quake (Present (21 / 5))])))) = [Some (21 / 5)]
   \<and> (\<exists>m. mag (hd (snd (load_data (Json (Some
        [quake JNull, quake (Present (- 1)), quake (Present (21 / 5))]))))) = Some m \<and> 0 < m)"
proof -
  let ?fs = "[quake JNull, quake (Present (- 1)), quake (Present (21 / 5))]"
  have v: "valid_feature (quake JNull)" "valid_feature (quake (Present (- 1)))"
    "valid_feature (quake (Present (21 / 5)))"
    by (simp_all add: valid_feature_def quake_def)
  have p: "map properties_mag ?fs = [JNull, Present (- 1), Present (21 / 5)]"
    by (simp add: quake_def)
  note c = C1_normalizer_positive_magnitude [of "Json (Some ?fs)" ?fs]
  from c v p have rows: "map mag (snd (load_data (Json (Some ?fs)))) = [Some (21 / 5)]"
    by simp
  then have "hd (snd (load_data (Json (Some ?fs)))) \<in> set (snd (load_data (Json (Some ?fs))))"
    by (cases "snd (load_data (Json (Some ?fs)))") auto
  with c have "\<exists>m. mag (hd (snd (load_data (Json (Some ?fs))))) = Some m \<and> 0 < m"
    by blast
  with v rows show ?thesis by simp
qed


text \<open>
  C8 (as the code has it): the claim that place is never null fails, since load_data
  neither drops nor replaces a null place. Each returned row has the place of its
  feature unchanged: null when the feature's place is JSON null or absent, and a string
  (possibly empty) when it is a string; so place is non-null in every row exactly for
  feeds whose kept features all carry a string.
\<close>

theorem C8_place_carried_over:
  "load_data_body (Json (Some fs)) = Inr df \<Longrightarrow>
     map place df
       = map (\<lambda>f. cell (properties_place f))
           (filter (\<lambda>f. positive_mag (cell (properties_mag f))) fs)
     \<and> ((\<forall>f\<in>set fs. \<exists>s. properties_place f = Present s) \<longrightarrow> (\<forall>r\<in>set df. place r \<noteq> None))"
proof -
  assume body: "load_data_body (Json (Some fs)) = Inr df"
  have df: "df = filter (\<lambda>r. positive_mag (mag r)) (map with_columns (map select_row fs))"
    by (rule load_data_body_Inr(1) [OF body])
  have eq: "map place df
       = map (\<lambda>f. cell (properties_place f))
           (filter (\<lambda>f. positive_mag (cell (properties_mag f))) fs)"
    unfolding df by (induction fs) simp_all
  have "\<forall>r\<in>set df. place r \<noteq> None" if "\<forall>f\<in>set fs. \<exists>s. properties_place f = Present s"
  proof
    fix r assume "r \<in> set df"
    then have "place r \<in> set (map place df)" by simp
    then obtain f where "f \<in> set fs" "place r = cell (properties_place f)"
      unfolding eq by auto
    with that show "place r \<noteq> None" by auto
  qed
  with eq show ?thesis by blast
qed

theorem C8_place_never_null_counterexample:
  "fst (load_data (Json (Some [unnamed_place]))) = None
   \<and> map place (snd (load_data (Json (Some [unnamed_place])))) = [None]"
  by (simp add: load_data_eval unnamed_place_def del: not_None_eq)

theorem C8_place_carried_over_witness:
  "load_data_body (Json (Some [quake (Present (21 / 5)), unnamed_place]))
     = Inr (snd (load_data (Json (Some [quake (Present (21 / 5)), unnamed_place]))))
   \<and> map place (snd (load_data (Json (Some [quake (Present (21 / 5)), unnamed_place]))))
     = [Some ''12 km NE of Tokyo, Japan'', None]"
proof -
  let ?fs = "[quake (Present (21 / 5)), unnamed_place]"
  have ok: "fst (load_data (Json (Some ?fs))) = None"
    by (simp add: load_data_eval unnamed_place_def del: not_None_eq)
  then have body: "load_data_body (Json (Some ?fs)) = Inr (snd (load_data (Json (Some ?fs))))"
    by (auto simp: load_data_def split: sum.splits)
  from C8_place_carried_over [OF body]
  have "map place (snd (load_data (Json (Some ?fs))))
     = [Some ''12 km NE of Tokyo, Japan'', None]"
    by (simp add: quake_def unnamed_place_def positive_mag_def)
  with body show ?thesis by simp
qed

text \<open>
  C3 (as the code has it): the claim that a malformed feature is skipped alone fails.
  Whenever some feature of the feed has a coordinate sequence shorter than three
  elements (or none), the subscript raises inside the one try block of load_data: the
  error is shown and the empty table is returned, so no row of any other feature is
  produced. The feed of one good feature and one with two coordinates shows it.
\<close>

theorem C3_malformed_record_aborts:
  "f \<in> set fs \<Longrightarrow> malformed_coordinates f \<Longrightarrow>
     snd (load_data (Json (Some fs))) = [] \<and> fst (load_data (Json (Some fs))) \<noteq> None"
proof -
  assume f: "f \<in> set fs" and bad: "malformed_coordinates f"
  have "\<not> (\<exists>y. subscript 2 (cell (geometry_coordinates f)) = Inr y)"
    using bad by (auto simp: malformed_coordinates_def subscript_def split: entry.splits)
  with f have "load_data_body (Json (Some fs)) \<noteq> Inr df" for df
    using load_data_body_Inr(3) [of fs df] by blast
  then obtain e where "load_data_body (Json (Some fs)) = Inl e"
    by (cases "load_data_body (Json (Some fs))") auto
  then show ?thesis by (simp add: load_data_def)
qed

theorem C3_skip_only_that_record_counterexample:
  "load_data (Json (Some [quake (Present (21 / 5)), short_coordinates])) = (Some IndexError, [])
   \<and> map mag (snd (load_data (Json (Some [quake (Present (21 / 5))])))) = [Some (21 / 5)]"
  by (simp add: load_data_def load_data_body_def select_columns_def missing_columns_def
      select_row_def quake_def short_coordinates_def subscript_def to_datetime_def
      add_columns_def bool_index_def notnull_def series_gt_def Let_def raw_row.defs row.defs
      del: not_None_eq)

theorem C3_malformed_record_aborts_witness:
  "short_coordinates \<in> set [quake (Present (21 / 5)), short_coordinates]
   \<and> malformed_coordinates short_coordinates
   \<and> snd (load_data (Json (Some [quake (Present (21 / 5)), short_coordinates]))) = []
   \<and> fst (load_data (Json (Some [quake (Present (21 / 5)), short_coordinates]))) \<noteq> None"
  using C3_malformed_record_aborts
    [of short_coordinates "[quake (Present (21 / 5)), short_coordinates]"]
  by (simp add: malformed_coordinates_def short_coordinates_def)

section \<open>Claims about errors and the page\<close>

text \<open>
  C5: a failed request, a body that is not JSON, an absent features member and a frame
  without one of the selected columns each make load_data show the exception and return
  the empty table; and whenever the body of load_data raises, the script still runs to
  its end, showing the error and the warning and neither slider, grid nor map.
\<close>

theorem C5_fetch_error_degrades:
  "load_data (NetworkFailure s) = (Some (RequestException s), [])
   \<and> load_data (NonJsonBody s) = (Some (JSONDecodeError s), [])
   \<and> load_data (Json None) = (Some (KeyError [''features'']), [])
   \<and> (missing_columns fs \<noteq> [] \<longrightarrow>
        load_data (Json (Some fs)) = (Some (KeyError (missing_columns fs)), []))
   \<and> (load_data_body resp = Inl e \<longrightarrow>
        load_data resp = (Some e, [])
        \<and> dashboard resp t =
            \<lparr> error_box = Some e, slider = None, sidebar_threshold = None,
              sidebar_total = None, dataframe = None, pydeck_chart = None,
              warning = Some warning_text \<rparr>)"
proof -
  have 1: "load_data (NetworkFailure s) = (Some (RequestException s), [])"
    by (simp add: load_data_def load_data_body_def)
  have 2: "load_data (NonJsonBody s) = (Some (JSONDecodeError s), [])"
    by (simp add: load_data_def load_data_body_def)
  have 3: "load_data (Json None) = (Some (KeyError [''features'']), [])"
    by (simp add: load_data_def load_data_body_def)
  have 4: "load_data (Json (Some fs)) = (Some (KeyError (missing_columns fs)), [])"
    if "missing_columns fs \<noteq> []"
    using that by (simp add: load_data_def load_data_body_def select_columns_def)
  have 5: "load_data resp = (Some e, [])
        \<and> dashboard resp t =
            \<lparr> error_box = Some e, slider = None, sidebar_threshold = None,
              sidebar_total = None, dataframe = None, pydeck_chart = None,
              warning = Some warning_text \<rparr>" if "load_data_body resp = Inl e"
    using load_data_Inl [OF that] by (simp add: dashboard_empty)
  from 1 2 3 4 5 show ?thesis by blast
qed

theorem C5_fetch_error_degrades_witness:
  "missing_columns [] \<noteq> []
   \<and> load_data (Json (Some [])) = (Some (KeyError (missing_columns [])), [])
   \<and> load_data_body (NetworkFailure ''timed out'') = Inl (RequestException ''timed out'')
   \<and> load_data (NetworkFailure ''timed out'') = (Some (RequestException ''timed out''), [])
   \<and> warning (dashboard (NetworkFailure ''timed out'') (5 / 2)) = Some warning_text
   \<and> pydeck_chart (dashboard (NetworkFailure ''timed out'') (5 / 2)) = None"
proof -
  have m: "missing_columns [] \<noteq> []"
    by (simp add: missing_columns_def)
  have b: "load_data_body (NetworkFailure ''timed out'') = Inl (RequestException ''timed out'')"
    by (simp add: load_data_body_def)
  note c = C5_fetch_error_degrades [of "''timed out''" "[]" "NetworkFailure ''timed out''"
      "RequestException ''timed out''" "5 / 2"]
  from c m have "load_data (Json (Some [])) = (Some (KeyError (missing_columns [])), [])"
    by blast
  moreover from c b have "load_data (NetworkFailure ''timed out'') = (Some (RequestException ''timed out''), [])"
    "dashboard (NetworkFailure ''timed out'') (5 / 2) =
            \<lparr> error_box = Some (RequestException ''timed out''), slider = None, sidebar_threshold = None,
              sidebar_total = None, dataframe = None, pydeck_chart = None,
              warning = Some warning_text \<rparr>"
    by blast+
  ultimately show ?thesis using m b by simp
qed

text \<open>
  C6: whenever the table after the filter is empty, the script draws no map, shows the
  warning and draws no grid; and a feed with an empty features array gives the empty
  table.
\<close>

theorem C6_empty_table_warning:
  "(filtered_table resp t = [] \<longrightarrow>
      pydeck_chart (dashboard resp t) = None
      \<and> warning (dashboard resp t) = Some warning_text
      \<and> dataframe (dashboard resp t) = None)
   \<and> filtered_table (Json (Some [])) t = []"
  by (simp add: dashboard_def Let_def filtered_table_def load_data_def load_data_body_def
      select_columns_def missing_columns_def)

theorem C6_empty_table_warning_witness:
  "snd (load_data (Json (Some [quake (Present 1)]))) \<noteq> []
   \<and> filtered_table (Json (Some [quake (Present 1)])) (5 / 2) = []
   \<and> pydeck_chart (dashboard (Json (Some [quake (Present 1)])) (5 / 2)) = None
   \<and> warning (dashboard (Json (Some [quake (Present 1)])) (5 / 2)) = Some warning_text
   \<and> dataframe (dashboard (Json (Some [quake (Present 1)])) (5 / 2)) = None"
proof -
  have a: "map mag (snd (load_data (Json (Some [quake (Present 1)])))) = [Some 1]"
    by (simp add: load_data_eval del: not_None_eq)
  then have ne: "snd (load_data (Json (Some [quake (Present 1)]))) \<noteq> []"
    by auto
  have "map mag (filtered_table (Json (Some [quake (Present 1)])) (5 / 2)) = []"
    using a ne by (auto simp: filtered_table_def filter_stage_filter Let_def
        map_eq_Cons_conv)
  then have e: "filtered_table (Json (Some [quake (Present 1)])) (5 / 2) = []"
    by simp
  with C6_empty_table_warning [of "Json (Some [quake (Present 1)])" "5 / 2"] ne
  show ?thesis by simp
qed

text \<open>
  C7 (as the code has it): for a non-empty normalized table no magnitude is null and
  the slider is called with the least and greatest magnitude, each rounded to one
  decimal, as bounds (the lower one not above the upper one), the value 2.5 and the step
  0.1. The value is passed as it is: the claim that it is constrained to the bounds
  fails, as the table with magnitudes 1.0 and 1.8 shows, where the upper bound is 1.8.
\<close>

theorem C7_slider_arguments:
  "snd (load_data resp) = df \<Longrightarrow> df \<noteq> [] \<Longrightarrow>
     map Some (dropna (map mag df)) = map mag df
     \<and> slider (dashboard resp t) =
         Some \<lparr> min_value = Some (py_round1 (Min (set (dropna (map mag df))))),
                max_value = Some (py_round1 (Max (set (dropna (map mag df))))),
                slider_value = 5 / 2, step = 1 / 10 \<rparr>
     \<and> py_round1 (Min (set (dropna (map mag df)))) \<le> py_round1 (Max (set (dropna (map mag df))))"
proof -
  assume df: "snd (load_data resp) = df" and ne: "df \<noteq> []"
  have "\<forall>r\<in>set df. \<exists>m. mag r = Some m"
  proof
    fix r assume "r \<in> set df"
    with df have "r \<in> set (snd (load_data resp))" by simp
    then show "\<exists>m. mag r = Some m"
      by (elim load_data_rows) (auto simp: positive_mag_def split: option.splits)
  qed
  then have all: "map Some (dropna (map mag df)) = map mag df"
    by (rule dropna_normalized)
  with ne have dn: "dropna (map mag df) \<noteq> []" by auto
  have sl: "slider (dashboard resp t) =
         Some \<lparr> min_value = Some (py_round1 (Min (set (dropna (map mag df))))),
                max_value = Some (py_round1 (Max (set (dropna (map mag df))))),
                slider_value = 5 / 2, step = 1 / 10 \<rparr>"
    using df ne
    by (simp add: dashboard_def Let_def mag_slider_def series_min_Min [OF dn]
        series_max_Max [OF dn])
  have "Min (set (dropna (map mag df))) \<le> Max (set (dropna (map mag df)))"
    using dn by (intro Min_le) (simp_all add: Max_in)
  then have "py_round1 (Min (set (dropna (map mag df)))) \<le> py_round1 (Max (set (dropna (map mag df))))"
    by (rule py_round1_mono)
  with all sl show ?thesis by blast
qed

theorem C7_default_within_bounds_counterexample:
  "slider (dashboard (Json (Some [quake (Present 1), quake (Present (9 / 5))])) (5 / 2))
     = Some \<lparr> min_value = Some 1, max_value = Some (9 / 5), slider_value = 5 / 2, step = 1 / 10 \<rparr>
   \<and> (9 / 5 :: rat) < 5 / 2"
  by (simp add: dashboard_def mag_slider_def series_min_def series_max_def dropna_def
      py_round1_def round_half_even_def load_data_eval del: not_None_eq)

theorem C7_slider_arguments_witness:
  "snd (load_data (Json (Some [quake (Present (21 / 5)), quake (Present (9 / 4))]))) \<noteq> []
   \<and> dropna (map mag (snd (load_data (Json (Some [quake (Present (21 / 5)), quake (Present (9 / 4))])))))
       = [21 / 5, 9 / 4]
   \<and> slider (dashboard (Json (Some [quake (Present (21 / 5)), quake (Present (9 / 4))])) 3)
       = Some \<lparr> min_value = Some (11 / 5), max_value = Some (21 / 5),
                slider_value = 5 / 2, step = 1 / 10 \<rparr>"
proof -
  let ?R = "Json (Some [quake (Present (21 / 5)), quake (Present (9 / 4))])"
  have m: "map mag (snd (load_data ?R)) = [Some (21 / 5), Some (9 / 4)]"
    by (simp add: load_data_eval del: not_None_eq)
  then have ne: "snd (load_data ?R) \<noteq> []" by auto
  have d: "dropna (map mag (snd (load_data ?R))) = [21 / 5, 9 / 4]"
    by (simp add: m dropna_def)
  have r: "py_round1 (9 / 4) = 11 / 5" "py_round1 (21 / 5) = 21 / 5"
    by (simp_all add: py_round1_def round_half_even_def Let_def floor_rat_divide_numeral)
  from C7_slider_arguments [OF refl ne, of 3]
  have "slider (dashboard ?R 3)
       = Some \<lparr> min_value = Some (11 / 5), max_value = Some (21 / 5),
                slider_value = 5 / 2, step = 1 / 10 \<rparr>"
    by (simp add: d r)
  with ne d show ?thesis by simp
qed

end
